theory Spec2Isabelle
  imports Complex_Main "HOL-Library.Sublist" "HOL-Library.AList"
begin

section \<open>Timestamps\<close>

text \<open>
  A pandas \<^verbatim>\<open>Timestamp\<close> (and a Python \<^verbatim>\<open>datetime\<close>) in UTC, by its calendar fields.
  Two timestamps compare as the instants they denote, which for calendar fields in
  range is the lexicographic order of the fields.
\<close>

datatype timestamp =
  Timestamp (year: nat) (month: nat) (day: nat) (hour: nat) (minute: nat) (second: nat)
    (nanosecond: nat)

fun lex_le :: "nat list \<Rightarrow> nat list \<Rightarrow> bool" where
  "lex_le [] ys = True"
| "lex_le (x # xs) [] = False"
| "lex_le (x # xs) (y # ys) = (x < y \<or> (x = y \<and> lex_le xs ys))"

definition ts_fields :: "timestamp \<Rightarrow> nat list" where
  "ts_fields t = [year t, month t, day t, hour t, minute t, second t, nanosecond t]"

definition ts_le :: "timestamp \<Rightarrow> timestamp \<Rightarrow> bool" where
  "ts_le s t = lex_le (ts_fields s) (ts_fields t)"

section \<open>Python values as the scripts see them\<close>

text \<open>
  The scripts read the decoded JSON of the launch API: \<^verbatim>\<open>None\<close>, booleans, numbers,
  strings, lists and dictionaries with string keys. A number is modelled by the exact
  rational it denotes (every finite float is one), and sums of masses are exact.
  \<open>PNaN\<close> is the float NaN, which is what a pandas DataFrame built from a list of
  dictionaries holds in a cell whose key the row's dictionary lacks; \<open>PTimestamp\<close> is
  a parsed date, which the scripts store in the rows they build. A dictionary is the
  list of its items; keys are unique, and \<open>map_of\<close> reads it. A string is the list of
  its characters.
\<close>

datatype pyval =
    PNone
  | PBool bool
  | PNum rat
  | PNaN
  | PTimestamp timestamp
  | PStr string
  | PList "pyval list"
  | PDict "(string \<times> pyval) list"

type_synonym dict = "(string \<times> pyval) list"

datatype py_error = TypeError | KeyError | AttributeError | IndexError | ValueError

text \<open>\<^verbatim>\<open>bool(v)\<close>, the test of \<^verbatim>\<open>if v:\<close>. NaN is a non-zero float, hence true.\<close>

fun truthy :: "pyval \<Rightarrow> bool" where
  "truthy PNone = False"
| "truthy (PBool b) = b"
| "truthy (PNum r) = (r \<noteq> 0)"
| "truthy PNaN = True"
| "truthy (PTimestamp t) = True"
| "truthy (PStr s) = (s \<noteq> [])"
| "truthy (PList xs) = (xs \<noteq> [])"
| "truthy (PDict d) = (d \<noteq> [])"

text \<open>\<^verbatim>\<open>d.get(k, default)\<close> on a dictionary.\<close>

definition py_get :: "dict \<Rightarrow> string \<Rightarrow> pyval \<Rightarrow> pyval" where
  "py_get d k dflt = (case map_of d k of Some v \<Rightarrow> v | None \<Rightarrow> dflt)"

text \<open>
  The number a value stands for in arithmetic and in comparisons with a number:
  \<^verbatim>\<open>bool\<close> is a subclass of \<^verbatim>\<open>int\<close> in Python.
\<close>

fun num_of :: "pyval \<Rightarrow> rat option" where
  "num_of (PNum r) = Some r"
| "num_of (PBool b) = Some (if b then 1 else 0)"
| "num_of _ = None"

text \<open>
  \<^verbatim>\<open>v > 0\<close>. Comparing \<^verbatim>\<open>None\<close>, a string, a list or a dictionary with an
  integer raises TypeError; every comparison with NaN is false.
\<close>

definition py_gt0 :: "pyval \<Rightarrow> py_error + bool" where
  "py_gt0 v = (case num_of v of
                 Some r \<Rightarrow> Inr (0 < r)
               | None \<Rightarrow> (if v = PNaN then Inr False else Inl TypeError))"

text \<open>
  \<^verbatim>\<open>for x in v\<close>: the elements of a list, the keys of a dictionary, the characters of
  a string; anything else is not iterable.
\<close>

fun py_iter :: "pyval \<Rightarrow> py_error + pyval list" where
  "py_iter (PList xs) = Inr xs"
| "py_iter (PDict d) = Inr (map (\<lambda>kv. PStr (fst kv)) d)"
| "py_iter (PStr s) = Inr (map (\<lambda>c. PStr [c]) s)"
| "py_iter _ = Inl TypeError"

text \<open>\<^verbatim>\<open>s.startswith(p)\<close> and the substring test \<^verbatim>\<open>p in s\<close> on strings.\<close>

fun startswith :: "string \<Rightarrow> string \<Rightarrow> bool" where
  "startswith s [] = True"
| "startswith [] (c # p) = False"
| "startswith (a # s) (c # p) = (a = c \<and> startswith s p)"

fun str_contains :: "string \<Rightarrow> string \<Rightarrow> bool" where
  "str_contains [] p = (p = [])"
| "str_contains (a # s) p = (startswith (a # s) p \<or> str_contains s p)"

text \<open>
  \<^verbatim>\<open>p in v\<close> for a string \<open>p\<close>: substring of a string, element of a list, key of a
  dictionary; TypeError on a value that is no container.
\<close>

fun py_in :: "string \<Rightarrow> pyval \<Rightarrow> py_error + bool" where
  "py_in p (PStr s) = Inr (str_contains s p)"
| "py_in p (PList xs) = Inr (PStr p \<in> set xs)"
| "py_in p (PDict d) = Inr (p \<in> set (map fst d))"
| "py_in p _ = Inl TypeError"

text \<open>
  \<^verbatim>\<open>str(v)\<close>. The text of a number, a list or a dictionary is Python's \<^verbatim>\<open>repr\<close>,
  taken as the parameter \<open>repr\<close>.
\<close>

definition py_str :: "(pyval \<Rightarrow> string) \<Rightarrow> pyval \<Rightarrow> string" where
  "py_str repr v = (case v of
       PStr s \<Rightarrow> s
     | PNone \<Rightarrow> ''None''
     | PBool b \<Rightarrow> (if b then ''True'' else ''False'')
     | _ \<Rightarrow> repr v)"


section \<open>eda\_spacex\_api.py: process\_api\_data\<close>

text \<open>
  \<^verbatim>\<open>x.get('name', 'Unknown') if isinstance(x, dict) else str(x)\<close>, used for the rocket
  and for the launchpad.
\<close>

definition name_of_ref :: "(pyval \<Rightarrow> string) \<Rightarrow> pyval \<Rightarrow> pyval" where
  "name_of_ref repr x = (case x of
       PDict d \<Rightarrow> py_get d ''name'' (PStr ''Unknown'')
     | _ \<Rightarrow> PStr (py_str repr x))"

text \<open>
  The inner loop over \<^verbatim>\<open>payloads\<close>: an embedded payload adds its \<^verbatim>\<open>mass_kg\<close> when
  that is true and positive; a payload given as an id, or as anything else, adds nothing.
\<close>

fun sum_embedded_mass :: "pyval list \<Rightarrow> rat \<Rightarrow> py_error + rat" where
  "sum_embedded_mass [] total_payload_mass = Inr total_payload_mass"
| "sum_embedded_mass (payload # rest) total_payload_mass =
     (case payload of
        PDict d \<Rightarrow>
          (let mass_kg = py_get d ''mass_kg'' PNone in
           if truthy mass_kg then
             (case py_gt0 mass_kg of
                Inl e \<Rightarrow> Inl e
              | Inr pos \<Rightarrow>
                  if pos then sum_embedded_mass rest (total_payload_mass + the (num_of mass_kg))
                  else sum_embedded_mass rest total_payload_mass)
           else sum_embedded_mass rest total_payload_mass)
      | _ \<Rightarrow> sum_embedded_mass rest total_payload_mass)"

text \<open>
  The body of the loop over \<^verbatim>\<open>launches_data\<close> for one launch: \<open>Inr None\<close> when the
  launch is skipped (not a Falcon 9, or no positive payload mass), \<open>Inr (Some row)\<close>
  when a row is appended, \<open>Inl e\<close> when the body raises.
\<close>

definition process_launch :: "(pyval \<Rightarrow> string) \<Rightarrow> pyval \<Rightarrow> py_error + dict option" where
  "process_launch repr launch =
     (case launch of
        PDict l \<Rightarrow>
          (let flight_number = py_get l ''flight_number'' (PNum 0);
               success = py_get l ''success'' (PBool False);
               launch_date = py_get l ''date_utc'' (PStr '''');
               rocket = py_get l ''rocket'' (PDict []);
               launchpad = py_get l ''launchpad'' (PDict []);
               payloads = py_get l ''payloads'' (PList []);
               rocket_name = name_of_ref repr rocket;
               launchpad_name = name_of_ref repr launchpad
           in case py_in ''Falcon 9'' rocket_name of
                Inl e \<Rightarrow> Inl e
              | Inr False \<Rightarrow> Inr None
              | Inr True \<Rightarrow>
                  (case py_iter payloads of
                     Inl e \<Rightarrow> Inl e
                   | Inr ps \<Rightarrow>
                       (case sum_embedded_mass ps 0 of
                          Inl e \<Rightarrow> Inl e
                        | Inr total_payload_mass \<Rightarrow>
                            if 0 < total_payload_mass then
                              Inr (Some [(''FlightNumber'', flight_number),
                                         (''LaunchSite'', launchpad_name),
                                         (''PayloadMass'', PNum total_payload_mass),
                                         (''Success'', success),
                                         (''Date'', launch_date),
                                         (''Rocket'', rocket_name)])
                            else Inr None)))
      | _ \<Rightarrow> Inl AttributeError)"

fun process_loop :: "(pyval \<Rightarrow> string) \<Rightarrow> pyval list \<Rightarrow> dict list \<Rightarrow> py_error + dict list" where
  "process_loop repr [] payload_data = Inr payload_data"
| "process_loop repr (launch # rest) payload_data =
     (case process_launch repr launch of
        Inl e \<Rightarrow> Inl e
      | Inr None \<Rightarrow> process_loop repr rest payload_data
      | Inr (Some row) \<Rightarrow> process_loop repr rest (payload_data @ [row]))"

text \<open>
  \<^verbatim>\<open>process_api_data(launches_data)\<close>: \<open>Inr None\<close> is the return value
  \<^verbatim>\<open>None\<close> (a false feed, or no row), \<open>Inr (Some rows)\<close> the rows of the returned
  DataFrame in order. The summary lines it prints are not modelled.
\<close>

definition process_api_data :: "(pyval \<Rightarrow> string) \<Rightarrow> pyval \<Rightarrow> py_error + dict list option" where
  "process_api_data repr launches_data =
     (if \<not> truthy launches_data then Inr None
      else case py_iter launches_data of
             Inl e \<Rightarrow> Inl e
           | Inr launches \<Rightarrow>
               (case process_loop repr launches [] of
                  Inl e \<Rightarrow> Inl e
                | Inr payload_data \<Rightarrow>
                    if length payload_data = 0 then Inr None else Inr (Some payload_data)))"


section \<open>The pandas operations the scripts use\<close>

text \<open>
  \<^verbatim>\<open>pd.DataFrame(launches)\<close> for a list of dictionaries: one row per dictionary, in
  order; the columns are the keys that occur; a cell whose key its row lacks holds NaN,
  any other cell the dictionary's value. (In a column that holds nothing but numbers
  and \<^verbatim>\<open>None\<close> pandas stores \<^verbatim>\<open>None\<close> as NaN; the columns the scripts read hold ids,
  lists, texts and booleans, where \<^verbatim>\<open>None\<close> stays.) Selecting a column that does not
  exist raises KeyError.
\<close>

record dataframe =
  columns :: "string list"
  rows :: "dict list"

definition DataFrame :: "dict list \<Rightarrow> dataframe" where
  "DataFrame launches = \<lparr>columns = remdups (concat (map (map fst) launches)), rows = launches\<rparr>"

definition cell :: "dict \<Rightarrow> string \<Rightarrow> pyval" where
  "cell row c = (case map_of row c of Some v \<Rightarrow> v | None \<Rightarrow> PNaN)"

definition column :: "dataframe \<Rightarrow> string \<Rightarrow> py_error + pyval list" where
  "column df c = (if c \<in> set (columns df) then Inr (map (\<lambda>row. cell row c) (rows df))
                  else Inl KeyError)"

text \<open>\<^verbatim>\<open>row[c]\<close> for a row of \<^verbatim>\<open>df.iterrows()\<close>.\<close>

definition row_item :: "dataframe \<Rightarrow> dict \<Rightarrow> string \<Rightarrow> py_error + pyval" where
  "row_item df row c = (if c \<in> set (columns df) then Inr (cell row c) else Inl KeyError)"

text \<open>Sequencing of steps that may raise: the first exception ends the computation.\<close>

fun bind_py :: "py_error + 'a \<Rightarrow> ('a \<Rightarrow> py_error + 'b) \<Rightarrow> py_error + 'b" where
  "bind_py (Inl e) f = Inl e"
| "bind_py (Inr x) f = f x"

text \<open>\<^verbatim>\<open>series.apply(f)\<close>: \<open>f\<close> on every cell, in order.\<close>

fun apply_series :: "(pyval \<Rightarrow> py_error + 'a) \<Rightarrow> pyval list \<Rightarrow> py_error + 'a list" where
  "apply_series f [] = Inr []"
| "apply_series f (x # xs) =
     bind_py (f x) (\<lambda>y. bind_py (apply_series f xs) (\<lambda>ys. Inr (y # ys)))"

text \<open>\<^verbatim>\<open>series.astype(bool)\<close> on a column of Python objects: the truth value of each cell.\<close>

definition astype_bool :: "pyval list \<Rightarrow> bool list" where
  "astype_bool col = map truthy col"

text \<open>
  \<^verbatim>\<open>pd.to_datetime\<close> reads a cell as a timestamp, gives \<^verbatim>\<open>NaT\<close> (here \<open>None\<close>)
  for a missing one and raises on text it cannot read. It is library code, taken as the
  parameter \<open>to_datetime\<close> of the functions below and applied cell by cell.
  \<open>dt_year\<close> is \<^verbatim>\<open>.dt.year\<close>, which is NaN for \<^verbatim>\<open>NaT\<close>.
\<close>

type_synonym parser = "pyval \<Rightarrow> py_error + timestamp option"

definition dt_year :: "timestamp option \<Rightarrow> pyval" where
  "dt_year d = (case d of Some t \<Rightarrow> PNum (of_nat (year t)) | None \<Rightarrow> PNaN)"


section \<open>Reference tables\<close>

text \<open>
  \<^verbatim>\<open>{x['id']: x for x in response.json()}\<close>: a table from ids, which are strings, to
  the dictionaries of the reference feed. \<open>lookup t k\<close> is \<^verbatim>\<open>t[k] if k in t else None\<close>:
  a list or a dictionary is unhashable and the membership test raises TypeError; any
  other value that is not a string is no key of the table.
\<close>

type_synonym table = "string \<Rightarrow> dict option"

fun lookup :: "table \<Rightarrow> pyval \<Rightarrow> py_error + dict option" where
  "lookup t (PStr k) = Inr (t k)"
| "lookup t (PList xs) = Inl TypeError"
| "lookup t (PDict d) = Inl TypeError"
| "lookup t _ = Inr None"


section \<open>max\_payload\_boosters.py\<close>

fun payload_info_loop :: "table \<Rightarrow> pyval list \<Rightarrow> dict list \<Rightarrow> py_error + dict list" where
  "payload_info_loop payloads_data [] payload_info = Inr payload_info"
| "payload_info_loop payloads_data (payload_id # rest) payload_info =
     bind_py (lookup payloads_data payload_id) (\<lambda>found.
       case found of
         Some payload \<Rightarrow>
           payload_info_loop payloads_data rest
             (payload_info @ [[(''mass_kg'', py_get payload ''mass_kg'' (PNum 0)),
                               (''name'', py_get payload ''name'' (PStr ''Unknown''))]])
       | None \<Rightarrow> payload_info_loop payloads_data rest payload_info)"

definition extraer_payload_info :: "table \<Rightarrow> pyval \<Rightarrow> py_error + dict list" where
  "extraer_payload_info payloads_data payload_ids =
     (if \<not> truthy payload_ids then Inr []
      else bind_py (py_iter payload_ids) (\<lambda>ids. payload_info_loop payloads_data ids []))"

definition extraer_rocket_info :: "table \<Rightarrow> pyval \<Rightarrow> py_error + dict option" where
  "extraer_rocket_info rockets_data rocket_id =
     (if truthy rocket_id then lookup rockets_data rocket_id else Inr None)"

text \<open>
  The loop over \<^verbatim>\<open>row['payload_info']\<close>: the running total and the names of the
  payloads counted. \<^verbatim>\<open>mass is not None and mass > 0\<close> raises TypeError on a mass that
  is a string, a list or a dictionary.
\<close>

fun sum_payload_info :: "dict list \<Rightarrow> rat \<times> pyval list \<Rightarrow> py_error + rat \<times> pyval list" where
  "sum_payload_info [] acc = Inr acc"
| "sum_payload_info (payload # rest) (total_payload_mass, payload_names) =
     (let mass = py_get payload ''mass_kg'' (PNum 0) in
      if mass = PNone then sum_payload_info rest (total_payload_mass, payload_names)
      else bind_py (py_gt0 mass) (\<lambda>pos.
        if pos then
          sum_payload_info rest
            (total_payload_mass + the (num_of mass),
             payload_names @ [py_get payload ''name'' (PStr ''Unknown'')])
        else sum_payload_info rest (total_payload_mass, payload_names)))"

text \<open>
  \<^verbatim>\<open>x.get(k, 'Unknown') if x else 'Unknown'\<close> for a resolved entry \<open>x\<close>, which is a
  dictionary or \<^verbatim>\<open>None\<close>.
\<close>

definition info_field :: "dict option \<Rightarrow> string \<Rightarrow> pyval" where
  "info_field x k = (case x of
       Some d \<Rightarrow> (if d \<noteq> [] then py_get d k (PStr ''Unknown'') else PStr ''Unknown'')
     | None \<Rightarrow> PStr ''Unknown'')"

text \<open>
  The body of the loop over \<^verbatim>\<open>df.iterrows()\<close>, for one row with its computed
  \<^verbatim>\<open>payload_info\<close>, \<^verbatim>\<open>rocket_info\<close> and \<^verbatim>\<open>success\<close> cells: the dictionary appended to
  \<^verbatim>\<open>launch_payloads\<close>, if any.
\<close>

definition launch_payload_of ::
  "dataframe \<Rightarrow> dict \<times> dict list \<times> dict option \<times> bool \<Rightarrow> py_error + dict option" where
  "launch_payload_of df r =
     (case r of (row, payload_info, rocket_info, success) \<Rightarrow>
        bind_py (sum_payload_info payload_info (0, [])) (\<lambda>(total_payload_mass, payload_names).
          if 0 < total_payload_mass then
            bind_py (row_item df row ''flight_number'') (\<lambda>flight_number.
            bind_py (row_item df row ''name'') (\<lambda>name.
            bind_py (row_item df row ''date_utc'') (\<lambda>date_utc.
              Inr (Some [(''flight_number'', flight_number),
                         (''name'', name),
                         (''date_utc'', date_utc),
                         (''payload_mass'', PNum total_payload_mass),
                         (''payload_names'', PList payload_names),
                         (''rocket_name'', info_field rocket_info ''name''),
                         (''success'', PBool success)]))))
          else Inr None))"

fun launch_payloads_loop ::
  "dataframe \<Rightarrow> (dict \<times> dict list \<times> dict option \<times> bool) list \<Rightarrow> dict list \<Rightarrow> py_error + dict list" where
  "launch_payloads_loop df [] launch_payloads = Inr launch_payloads"
| "launch_payloads_loop df (r # rest) launch_payloads =
     bind_py (launch_payload_of df r) (\<lambda>appended.
       case appended of
         Some launch \<Rightarrow> launch_payloads_loop df rest (launch_payloads @ [launch])
       | None \<Rightarrow> launch_payloads_loop df rest launch_payloads)"

text \<open>The function up to the list \<^verbatim>\<open>launch_payloads\<close>.\<close>

definition launch_payloads ::
  "parser \<Rightarrow> table \<Rightarrow> table \<Rightarrow> dict list \<Rightarrow> py_error + dict list" where
  "launch_payloads to_datetime payloads_data rockets_data launches =
     (let df = DataFrame launches in
      bind_py (column df ''payloads'') (\<lambda>payloads_col.
      bind_py (apply_series (extraer_payload_info payloads_data) payloads_col) (\<lambda>payload_info.
      bind_py (column df ''rocket'') (\<lambda>rocket_col.
      bind_py (apply_series (extraer_rocket_info rockets_data) rocket_col) (\<lambda>rocket_info.
      bind_py (column df ''date_utc'') (\<lambda>date_col.
      bind_py (apply_series to_datetime date_col) (\<lambda>launch_date.
      bind_py (column df ''success'') (\<lambda>success_col.
        launch_payloads_loop df
          (zip (rows df) (zip payload_info (zip rocket_info (astype_bool success_col)))) []))))))))"

text \<open>
  \<^verbatim>\<open>buscar_max_payload_boosters(launches)\<close>: the launches that carry the greatest total
  mass, with that mass; \<open>None\<close> is the return value \<^verbatim>\<open>(None, None)\<close>.
\<close>

definition mass_of :: "dict \<Rightarrow> rat" where
  "mass_of launch = (case map_of launch ''payload_mass'' of Some (PNum m) \<Rightarrow> m | _ \<Rightarrow> 0)"

definition buscar_max_payload_boosters ::
  "parser \<Rightarrow> table \<Rightarrow> table \<Rightarrow> dict list \<Rightarrow> py_error + (dict list \<times> rat) option" where
  "buscar_max_payload_boosters to_datetime payloads_data rockets_data launches =
     bind_py (launch_payloads to_datetime payloads_data rockets_data launches) (\<lambda>lps.
       case lps of
         [] \<Rightarrow> Inr None
       | l # ls \<Rightarrow>
           (let max_payload_mass = fold (\<lambda>x m. max m (mass_of x)) ls (mass_of l)
            in Inr (Some (filter (\<lambda>launch. mass_of launch = max_payload_mass) lps,
                          max_payload_mass))))"


section \<open>payload\_vs\_orbit.py\<close>

text \<open>
  \<^verbatim>\<open>len(v)\<close> and \<^verbatim>\<open>v[0]\<close>. A number, a boolean, \<^verbatim>\<open>None\<close> and a timestamp have no
  length and cannot be indexed; a dictionary of the feed has string keys, so the key
  \<^verbatim>\<open>0\<close> is missing.
\<close>

fun py_len :: "pyval \<Rightarrow> py_error + nat" where
  "py_len (PStr s) = Inr (length s)"
| "py_len (PList xs) = Inr (length xs)"
| "py_len (PDict d) = Inr (length d)"
| "py_len _ = Inl TypeError"

fun py_first :: "pyval \<Rightarrow> py_error + pyval" where
  "py_first (PList []) = Inl IndexError"
| "py_first (PList (x # xs)) = Inr x"
| "py_first (PStr []) = Inl IndexError"
| "py_first (PStr (c # s)) = Inr (PStr [c])"
| "py_first (PDict d) = Inl KeyError"
| "py_first _ = Inl TypeError"

text \<open>The test \<^verbatim>\<open>v and len(v) > 0\<close>.\<close>

definition has_items :: "pyval \<Rightarrow> py_error + bool" where
  "has_items v = (if truthy v then bind_py (py_len v) (\<lambda>n. Inr (0 < n)) else Inr False)"

definition extraer_orbit :: "table \<Rightarrow> pyval \<Rightarrow> py_error + pyval" where
  "extraer_orbit payloads_data payload_ids =
     bind_py (has_items payload_ids) (\<lambda>some.
       if some then
         bind_py (py_first payload_ids) (\<lambda>payload_id.
         bind_py (lookup payloads_data payload_id) (\<lambda>found.
           case found of
             Some payload \<Rightarrow> Inr (py_get payload ''orbit'' (PStr ''Unknown''))
           | None \<Rightarrow> Inr (PStr ''Unknown'')))
       else Inr (PStr ''Unknown''))"

definition extraer_mass :: "table \<Rightarrow> pyval \<Rightarrow> py_error + pyval" where
  "extraer_mass payloads_data payload_ids =
     bind_py (has_items payload_ids) (\<lambda>some.
       if some then
         bind_py (py_first payload_ids) (\<lambda>payload_id.
         bind_py (lookup payloads_data payload_id) (\<lambda>found.
           case found of
             Some payload \<Rightarrow> Inr (py_get payload ''mass_kg'' (PNum 0))
           | None \<Rightarrow> Inr (PNum 0)))
       else Inr (PNum 0))"

text \<open>
  \<^verbatim>\<open>procesar_datos(launches)\<close>: the rows of \<^verbatim>\<open>df_clean\<close>, each with its four new
  cells.
\<close>

definition procesar_datos :: "parser \<Rightarrow> table \<Rightarrow> dict list \<Rightarrow> py_error + dict list" where
  "procesar_datos to_datetime payloads_data launches =
     (let df = DataFrame launches in
      bind_py (column df ''payloads'') (\<lambda>payloads_col.
      bind_py (apply_series (extraer_orbit payloads_data) payloads_col) (\<lambda>orbit_type.
      bind_py (apply_series (extraer_mass payloads_data) payloads_col) (\<lambda>payload_mass.
      bind_py (column df ''date_utc'') (\<lambda>date_col.
      bind_py (apply_series to_datetime date_col) (\<lambda>launch_date.
      bind_py (column df ''success'') (\<lambda>success_col.
        Inr (filter (\<lambda>row. cell row ''orbit_type'' \<noteq> PStr ''Unknown'')
              (map (\<lambda>(row, orbit, mass, d, success).
                      AList.update ''success'' (PBool success)
                        (AList.update ''launch_year'' (dt_year d)
                          (AList.update ''payload_mass'' mass
                            (AList.update ''orbit_type'' orbit row))))
                   (zip (rows df) (zip orbit_type (zip payload_mass
                      (zip launch_date (astype_bool success_col))))))))))))))"


section \<open>launch\_sites\_pattern.py\<close>

definition extraer_launchpad_info :: "table \<Rightarrow> pyval \<Rightarrow> py_error + dict option" where
  "extraer_launchpad_info launchpads_data launchpad_id =
     (if truthy launchpad_id then lookup launchpads_data launchpad_id else Inr None)"

text \<open>The value a resolved entry has as a cell: the dictionary, or \<^verbatim>\<open>None\<close>.\<close>

definition info_cell :: "dict option \<Rightarrow> pyval" where
  "info_cell x = (case x of Some d \<Rightarrow> PDict d | None \<Rightarrow> PNone)"

text \<open>
  \<^verbatim>\<open>buscar_sitios_patron\<close> up to its filter: the rows of \<^verbatim>\<open>df\<close> with the five cells
  it adds. The function then keeps the rows whose \<^verbatim>\<open>launch_site_name\<close> starts with
  the pattern.
\<close>

definition launch_site_columns :: "table \<Rightarrow> dict list \<Rightarrow> py_error + dict list" where
  "launch_site_columns launchpads_data launches =
     (let df = DataFrame launches in
      bind_py (column df ''launchpad'') (\<lambda>launchpad_col.
      bind_py (apply_series (extraer_launchpad_info launchpads_data) launchpad_col) (\<lambda>launchpad_info.
        Inr (map (\<lambda>(row, x).
                    AList.update ''launch_site_region'' (info_field x ''region'')
                      (AList.update ''launch_site_locality'' (info_field x ''locality'')
                        (AList.update ''launch_site_full_name'' (info_field x ''full_name'')
                          (AList.update ''launch_site_name'' (info_field x ''name'')
                            (AList.update ''launchpad_info'' (info_cell x) row)))))
                 (zip (rows df) launchpad_info)))))"


section \<open>landing\_outcomes\_ranking.py\<close>

text \<open>
  The label the loop gives a core, from its \<^verbatim>\<open>landing_success\<close> and its
  \<^verbatim>\<open>landing_type\<close>.
\<close>

definition outcome_label :: "pyval \<Rightarrow> pyval \<Rightarrow> string" where
  "outcome_label landing_success landing_type =
     (if truthy landing_success then
        (if landing_type = PStr ''RTLS'' then ''Success (ground pad)''
         else if landing_type = PStr ''ASDS'' then ''Success (drone ship)''
         else if landing_type = PStr ''Ocean'' then ''Success (ocean)''
         else ''Success (other)'')
      else
        (if landing_type = PStr ''RTLS'' then ''Failure (ground pad)''
         else if landing_type = PStr ''ASDS'' then ''Failure (drone ship)''
         else if landing_type = PStr ''Ocean'' then ''Failure (ocean)''
         else ''Failure (other)''))"

text \<open>
  The bounds of the range. pandas reads the text \<^verbatim>\<open>'2010-06-04'\<close> it is compared
  with as the timestamp of that day at midnight.
\<close>

definition start_date :: timestamp where
  "start_date = Timestamp 2010 6 4 0 0 0 0"

definition end_date :: timestamp where
  "end_date = Timestamp 2017 3 20 0 0 0 0"

text \<open>
  \<^verbatim>\<open>(df['date_utc'] >= start_date) & (df['date_utc'] <= end_date)\<close> for one cell of the
  parsed column; every comparison with \<^verbatim>\<open>NaT\<close> is false.
\<close>

definition in_date_range :: "timestamp option \<Rightarrow> bool" where
  "in_date_range d = (case d of Some t \<Rightarrow> ts_le start_date t \<and> ts_le t end_date | None \<Rightarrow> False)"

text \<open>\<^verbatim>\<open>df_filtered\<close>: the rows in the range, each with its parsed date.\<close>

definition filter_date_range :: "(dict \<times> timestamp option) list \<Rightarrow> dict list" where
  "filter_date_range rs =
     List.map_filter (\<lambda>(row, d).
        case d of
          Some t \<Rightarrow> (if in_date_range d then Some (AList.update ''date_utc'' (PTimestamp t) row)
                     else None)
        | None \<Rightarrow> None) rs"

fun outcome_cores_loop :: "dataframe \<Rightarrow> dict \<Rightarrow> pyval list \<Rightarrow> dict list \<Rightarrow> py_error + dict list" where
  "outcome_cores_loop df row [] landing_outcomes = Inr landing_outcomes"
| "outcome_cores_loop df row (core # rest) landing_outcomes =
     (case core of
        PDict c \<Rightarrow>
          (let landing_success = py_get c ''landing_success'' (PBool False);
               landing_type = py_get c ''landing_type'' (PStr '''');
               outcome = outcome_label landing_success landing_type
           in bind_py (row_item df row ''flight_number'') (\<lambda>flight_number.
              bind_py (row_item df row ''name'') (\<lambda>name.
              bind_py (row_item df row ''date_utc'') (\<lambda>date_utc.
                outcome_cores_loop df row rest
                  (landing_outcomes @
                    [[(''flight_number'', flight_number),
                      (''name'', name),
                      (''date_utc'', date_utc),
                      (''outcome'', PStr outcome),
                      (''landing_success'', landing_success),
                      (''landing_type'', landing_type),
                      (''core_id'', py_get c ''core'' (PStr ''Unknown''))]])))))
      | _ \<Rightarrow> Inl AttributeError)"

fun outcome_rows_loop :: "dataframe \<Rightarrow> dict list \<Rightarrow> dict list \<Rightarrow> py_error + dict list" where
  "outcome_rows_loop df [] landing_outcomes = Inr landing_outcomes"
| "outcome_rows_loop df (row # rest) landing_outcomes =
     bind_py (row_item df row ''cores'') (\<lambda>cores.
     bind_py (has_items cores) (\<lambda>some.
       if some then
         bind_py (py_iter cores) (\<lambda>cs.
         bind_py (outcome_cores_loop df row cs landing_outcomes) (\<lambda>landing_outcomes'.
           outcome_rows_loop df rest landing_outcomes'))
       else outcome_rows_loop df rest landing_outcomes))"

text \<open>
  \<^verbatim>\<open>clasificar_resultados_aterrizaje(launches)\<close>: the list \<^verbatim>\<open>landing_outcomes\<close> it
  returns. The counts per outcome it returns beside the list are not modelled.
\<close>

definition clasificar_resultados_aterrizaje :: "parser \<Rightarrow> dict list \<Rightarrow> py_error + dict list" where
  "clasificar_resultados_aterrizaje to_datetime launches =
     (let df = DataFrame launches in
      bind_py (column df ''date_utc'') (\<lambda>date_col.
      bind_py (apply_series to_datetime date_col) (\<lambda>dates.
        outcome_rows_loop df (filter_date_range (zip (rows df) dates)) [])))"


section \<open>failed\_landings\_2015.py\<close>

fun failed_cores_loop ::
  "dataframe \<Rightarrow> dict \<Rightarrow> dict option \<Rightarrow> dict option \<Rightarrow> pyval list \<Rightarrow> dict list \<Rightarrow> py_error + dict list" where
  "failed_cores_loop df row rocket_info launchpad_info [] failed = Inr failed"
| "failed_cores_loop df row rocket_info launchpad_info (core # rest) failed =
     (case core of
        PDict c \<Rightarrow>
          (let landing_success = py_get c ''landing_success'' (PBool False);
               landing_type = py_get c ''landing_type'' (PStr '''')
           in if \<not> truthy landing_success \<and> landing_type = PStr ''ASDS'' then
                bind_py (row_item df row ''flight_number'') (\<lambda>flight_number.
                bind_py (row_item df row ''name'') (\<lambda>name.
                bind_py (row_item df row ''date_utc'') (\<lambda>date_utc.
                bind_py (row_item df row ''date_local'') (\<lambda>date_local.
                  failed_cores_loop df row rocket_info launchpad_info rest
                    (failed @
                      [[(''flight_number'', flight_number),
                        (''name'', name),
                        (''date_utc'', date_utc),
                        (''date_local'', date_local),
                        (''rocket_name'', info_field rocket_info ''name''),
                        (''rocket_type'', info_field rocket_info ''type''),
                        (''launch_site_name'', info_field launchpad_info ''name''),
                        (''launch_site_full_name'', info_field launchpad_info ''full_name''),
                        (''launch_site_locality'', info_field launchpad_info ''locality''),
                        (''launch_site_region'', info_field launchpad_info ''region''),
                        (''landing_type'', landing_type),
                        (''landing_success'', landing_success),
                        (''landpad'', py_get c ''landpad'' (PStr ''Unknown'')),
                        (''reused'', py_get c ''reused'' (PBool False)),
                        (''core_id'', py_get c ''core'' (PStr ''Unknown''))]])))))
              else failed_cores_loop df row rocket_info launchpad_info rest failed)
      | _ \<Rightarrow> Inl AttributeError)"

fun failed_rows_loop ::
  "dataframe \<Rightarrow> (dict \<times> dict option \<times> dict option) list \<Rightarrow> dict list \<Rightarrow> py_error + dict list" where
  "failed_rows_loop df [] failed = Inr failed"
| "failed_rows_loop df ((row, rocket_info, launchpad_info) # rest) failed =
     bind_py (row_item df row ''cores'') (\<lambda>cores.
     bind_py (has_items cores) (\<lambda>some.
       if some then
         bind_py (py_iter cores) (\<lambda>cs.
         bind_py (failed_cores_loop df row rocket_info launchpad_info cs failed) (\<lambda>failed'.
           failed_rows_loop df rest failed'))
       else failed_rows_loop df rest failed))"

text \<open>
  \<^verbatim>\<open>buscar_aterrizajes_fallidos_2015\<close> up to its sort: the list
  \<^verbatim>\<open>failed_drone_ship_landings\<close> in the order the loop builds it. The function then
  sorts the list by \<^verbatim>\<open>date_utc\<close>.
\<close>

definition failed_drone_ship_landings :: "parser \<Rightarrow> table \<Rightarrow> table \<Rightarrow> dict list \<Rightarrow> py_error + dict list" where
  "failed_drone_ship_landings to_datetime rockets_data launchpads_data launches =
     (let df = DataFrame launches in
      bind_py (column df ''date_utc'') (\<lambda>date_col.
      bind_py (apply_series to_datetime date_col) (\<lambda>dates.
        (let df_2015 = map fst (filter (\<lambda>(row, d). dt_year d = PNum 2015) (zip (rows df) dates)) in
         bind_py (column df ''rocket'') (\<lambda>u.
         bind_py (apply_series (extraer_rocket_info rockets_data)
                    (map (\<lambda>row. cell row ''rocket'') df_2015)) (\<lambda>rocket_info.
         bind_py (column df ''launchpad'') (\<lambda>u.
         bind_py (apply_series (extraer_launchpad_info launchpads_data)
                    (map (\<lambda>row. cell row ''launchpad'') df_2015)) (\<lambda>launchpad_info.
           failed_rows_loop df (zip df_2015 (zip rocket_info launchpad_info)) []))))))))"


section \<open>The sample data generators\<close>

text \<open>
  numpy's global random generator, by the state \<open>'s\<close> it keeps: \<^verbatim>\<open>np.random.seed(n)\<close>
  sets the state from the seed alone, and every draw returns a value and the next
  state. The draws are library code and any functions may stand for them. A float drawn
  is the rational it denotes; \<open>fl\<close> rounds the exact result of a float operation to a
  float.
\<close>

record 's numpy_random =
  rnd_seed :: "nat \<Rightarrow> 's"
  rnd_choice :: "string list \<Rightarrow> 's \<Rightarrow> string \<times> 's"
  rnd_choice_p :: "string list \<Rightarrow> rat list \<Rightarrow> 's \<Rightarrow> string \<times> 's"
  rnd_choice_int :: "int list \<Rightarrow> rat list \<Rightarrow> 's \<Rightarrow> int \<times> 's"
  rnd_normal :: "rat \<Rightarrow> rat \<Rightarrow> 's \<Rightarrow> rat \<times> 's"
  rnd_random :: "'s \<Rightarrow> rat \<times> 's"
  rnd_randint :: "int \<Rightarrow> int \<Rightarrow> 's \<Rightarrow> int \<times> 's"

text \<open>\<^verbatim>\<open>int(x)\<close> of a float: truncation towards zero.\<close>

definition py_int :: "rat \<Rightarrow> int" where
  "py_int x = (if 0 \<le> x then \<lfloor>x\<rfloor> else \<lceil>x\<rceil>)"

text \<open>The format \<^verbatim>\<open>{n:02d}\<close>: decimal digits, padded with a zero to two characters.\<close>

fun digits :: "nat \<Rightarrow> string" where
  "digits n = (if n < 10 then [''0123456789'' ! n]
               else digits (n div 10) @ [''0123456789'' ! (n mod 10)])"

definition format_02d :: "int \<Rightarrow> string" where
  "format_02d n = (if n < 0 then ''-'' @ digits (nat (- n))
                   else if n < 10 then ''0'' @ digits (nat n)
                   else digits (nat n))"

subsection \<open>eda\_spacex\_api.py: create\_realistic\_sample\_data\<close>

definition launch_sites :: "string list" where
  "launch_sites = [''CCAFS SLC 40'', ''KSC LC 39A'', ''VAFB SLC 4E'',
                   ''CCAFS LC 40'', ''KSC LC 39A'', ''VAFB SLC 4E'']"

text \<open>One pass of the loop body, for the index \<open>i\<close>: the row appended and the next state.\<close>

definition sample_launch :: "'s numpy_random \<Rightarrow> (rat \<Rightarrow> rat) \<Rightarrow> nat \<Rightarrow> 's \<Rightarrow> dict \<times> 's" where
  "sample_launch R fl i g0 =
     (let (launch_site, g1) = rnd_choice R launch_sites g0;
          (drawn, g2) =
             (if str_contains launch_site ''CCAFS'' then rnd_normal R 5000 1500 g1
              else if str_contains launch_site ''KSC'' then rnd_normal R 6000 2000 g1
              else if str_contains launch_site ''VAFB'' then rnd_normal R 4000 1000 g1
              else rnd_normal R 5000 1500 g1);
          payload_mass = max 1000 (py_int drawn);
          success_prob = fl (fl (9 / 10) - fl (of_int (payload_mass - 3000) / 10000));
          success_prob' = max (fl (6 / 10)) (min (fl (95 / 100)) success_prob);
          (u, g3) = rnd_random R g2;
          success = (u < success_prob');
          (m, g4) = rnd_randint R 1 13 g3;
          (d, g5) = rnd_randint R 1 29 g4
      in ([(''FlightNumber'', PNum (of_nat (i + 1))),
           (''LaunchSite'', PStr launch_site),
           (''PayloadMass'', PNum (of_int payload_mass)),
           (''Success'', PBool success),
           (''Date'', PStr (''2020-'' @ format_02d m @ ''-'' @ format_02d d)),
           (''Rocket'', PStr ''Falcon 9'')], g5))"

fun sample_loop :: "'s numpy_random \<Rightarrow> (rat \<Rightarrow> rat) \<Rightarrow> nat list \<Rightarrow> dict list \<times> 's \<Rightarrow> dict list \<times> 's" where
  "sample_loop R fl [] (data, g) = (data, g)"
| "sample_loop R fl (i # rest) (data, g) =
     (case sample_launch R fl i g of (row, g') \<Rightarrow> sample_loop R fl rest (data @ [row], g'))"

text \<open>
  \<^verbatim>\<open>create_realistic_sample_data()\<close>, run with the generator in the state \<open>g\<close>: the rows
  of the DataFrame it returns and the state it leaves.
\<close>

definition create_realistic_sample_data :: "'s numpy_random \<Rightarrow> (rat \<Rightarrow> rat) \<Rightarrow> 's \<Rightarrow> dict list \<times> 's" where
  "create_realistic_sample_data R fl g =
     (let n_launches = 120 in sample_loop R fl [0..<n_launches] ([], rnd_seed R 42))"

subsection \<open>flight\_vs\_launc.py: create\_spacex\_sample\_data\<close>

text \<open>
  One of the three loops: \<open>n\<close> rows for one site, with the mean and deviation of its
  masses and the weights of its orbits and classes. \<open>plus_days\<close> is
  \<^verbatim>\<open>datetime + timedelta(days=k)\<close>, library code.
\<close>

fun site_loop ::
  "'s numpy_random \<Rightarrow> (timestamp \<Rightarrow> int \<Rightarrow> timestamp) \<Rightarrow> string \<Rightarrow> rat \<Rightarrow> rat \<Rightarrow> rat list \<Rightarrow> rat list
     \<Rightarrow> nat \<Rightarrow> dict list \<times> nat \<times> 's \<Rightarrow> dict list \<times> nat \<times> 's" where
  "site_loop R plus_days site mu sigma p_orbit p_class 0 st = st"
| "site_loop R plus_days site mu sigma p_orbit p_class (Suc n) (data, flight_number, g0) =
     (let (k, g1) = rnd_randint R 0 3650 g0;
          (mass, g2) = rnd_normal R mu sigma g1;
          (orbit, g3) = rnd_choice_p R [''LEO'', ''GTO'', ''ISS''] p_orbit g2;
          (class, g4) = rnd_choice_int R [0, 1] p_class g3
      in site_loop R plus_days site mu sigma p_orbit p_class n
           (data @ [[(''FlightNumber'', PNum (of_nat flight_number)),
                     (''LaunchSite'', PStr site),
                     (''Date'', PTimestamp (plus_days (Timestamp 2010 1 1 0 0 0 0) k)),
                     (''PayloadMass'', PNum mass),
                     (''Orbit'', PStr orbit),
                     (''Class'', PNum (of_int class))]],
            flight_number + 1, g4))"

definition create_spacex_sample_data ::
  "'s numpy_random \<Rightarrow> (timestamp \<Rightarrow> int \<Rightarrow> timestamp) \<Rightarrow> 's \<Rightarrow> dict list \<times> 's" where
  "create_spacex_sample_data R plus_days g =
     (let s0 = ([], 1, rnd_seed R 42);
          s1 = site_loop R plus_days ''CCAFS SLC 40'' 5000 1500
                 [4 / 10, 3 / 10, 3 / 10] [33 / 100, 67 / 100] 55 s0;
          s2 = site_loop R plus_days ''KSC LC 39A'' 6000 2000
                 [3 / 10, 4 / 10, 3 / 10] [25 / 100, 75 / 100] 22 s1;
          s3 = site_loop R plus_days ''VAFB SLC 4E'' 4000 1000
                 [5 / 10, 2 / 10, 3 / 10] [4 / 10, 6 / 10] 13 s2
      in (fst s3, snd (snd s3)))"


section \<open>Example inputs\<close>

text \<open>
  A Falcon 9 launch in four forms: with one embedded payload of 500 kg and
  \<^verbatim>\<open>"success": null\<close>, as the API reports a launch whose outcome is not yet known; with
  the same payload and no \<^verbatim>\<open>success\<close> key; with \<^verbatim>\<open>"payloads": null\<close>; and with no
  \<^verbatim>\<open>payloads\<close> key.
\<close>

definition launch_null_success :: pyval where
  "launch_null_success =
     PDict [(''flight_number'', PNum 7),
            (''success'', PNone),
            (''rocket'', PDict [(''name'', PStr ''Falcon 9'')]),
            (''payloads'', PList [PDict [(''mass_kg'', PNum 500)]])]"

definition launch_no_success :: pyval where
  "launch_no_success =
     PDict [(''flight_number'', PNum 7),
            (''rocket'', PDict [(''name'', PStr ''Falcon 9'')]),
            (''payloads'', PList [PDict [(''mass_kg'', PNum 500)]])]"

definition launch_null_payloads :: pyval where
  "launch_null_payloads =
     PDict [(''flight_number'', PNum 7),
            (''success'', PBool True),
            (''rocket'', PDict [(''name'', PStr ''Falcon 9'')]),
            (''payloads'', PNone)]"

definition launch_no_payloads :: pyval where
  "launch_no_payloads =
     PDict [(''flight_number'', PNum 7),
            (''success'', PBool True),
            (''rocket'', PDict [(''name'', PStr ''Falcon 9'')])]"

text \<open>
  A small generator to run the sample data functions on: the state is a number, which a
  linear congruence advances, and every draw is read off the state.
\<close>

definition lcg :: "nat \<Rightarrow> nat" where
  "lcg s = (1103515245 * s + 12345) mod 2147483648"

definition example_random :: "nat numpy_random" where
  "example_random =
     \<lparr>rnd_seed = (\<lambda>n. n),
      rnd_choice = (\<lambda>xs s. (xs ! (s mod length xs), lcg s)),
      rnd_choice_p = (\<lambda>xs p s. (xs ! (s mod length xs), lcg s)),
      rnd_choice_int = (\<lambda>xs p s. (xs ! (s mod length xs), lcg s)),
      rnd_normal = (\<lambda>mu sigma s. (mu + sigma * (of_nat (s mod 9) - 4), lcg s)),
      rnd_random = (\<lambda>s. (of_nat (s mod 100) / 100, lcg s)),
      rnd_randint = (\<lambda>lo hi s. (lo + int (s mod nat (hi - lo)), lcg s))\<rparr>"


section \<open>Notions used to state the claims\<close>

text \<open>
  The test of the loop of failed\_landings\_2015.py on one core:
  \<^verbatim>\<open>not landing_success and landing_type == 'ASDS'\<close>.
\<close>

definition is_failed_asds :: "pyval \<Rightarrow> bool" where
  "is_failed_asds core =
     (case core of
        PDict c \<Rightarrow> \<not> truthy (py_get c ''landing_success'' (PBool False))
                   \<and> py_get c ''landing_type'' (PStr '''') = PStr ''ASDS''
      | _ \<Rightarrow> False)"







text \<open>
  Reference tables with one launchpad and with two payloads, and launches that refer to
  them: one whose rocket, launchpad and payload ids are in no table, one with two
  payloads that resolve, and a Falcon Heavy launch with an embedded payload.
\<close>

definition launchpads_example :: table where
  "launchpads_example =
     [''pad1'' \<mapsto> [(''id'', PStr ''pad1''), (''name'', PStr ''KSC LC 39A'')]]"

definition payloads_example :: table where
  "payloads_example =
     [''p1'' \<mapsto> [(''id'', PStr ''p1''), (''mass_kg'', PNum 500), (''orbit'', PStr ''LEO'')],
      ''p2'' \<mapsto> [(''id'', PStr ''p2''), (''mass_kg'', PNum 300), (''orbit'', PStr ''GTO'')]]"

definition core_failed_asds :: pyval where
  "core_failed_asds =
     PDict [(''core'', PStr ''c1''), (''landing_success'', PNone),
            (''landing_type'', PStr ''ASDS'')]"

definition launch_unknown_refs :: dict where
  "launch_unknown_refs =
     [(''flight_number'', PNum 20), (''name'', PStr ''CRS-7''),
      (''date_utc'', PStr ''2015-06-28T14:21:00.000Z''),
      (''date_local'', PStr ''2015-06-28T10:21:00-04:00''),
      (''success'', PBool False),
      (''rocket'', PStr ''r9''), (''launchpad'', PStr ''pad9''),
      (''payloads'', PList [PStr ''p9'']),
      (''cores'', PList [core_failed_asds])]"

definition launch_two_payloads :: dict where
  "launch_two_payloads =
     [(''flight_number'', PNum 6), (''name'', PStr ''CASSIOPE''),
      (''date_utc'', PStr ''2013-09-29T16:00:00.000Z''),
      (''success'', PBool True),
      (''rocket'', PStr ''r9''),
      (''payloads'', PList [PStr ''p1'', PStr ''p2''])]"


text \<open>A date parser for the examples: it reads no text and gives \<^verbatim>\<open>NaT\<close> for every cell.\<close>

definition no_dates :: parser where
  "no_dates v = Inr None"


section \<open>The order of timestamps\<close>

lemma lex_le_refl: "lex_le xs xs"
  by (induction xs) auto


lemma ts_le_refl: "ts_le t t"
  by (simp add: ts_le_def lex_le_refl)



section \<open>Steps that may raise, and columns\<close>

lemma bind_py_Inr: "bind_py m f = Inr y \<longleftrightarrow> (\<exists>x. m = Inr x \<and> f x = Inr y)"
  by (cases m) auto

lemma apply_series_Inr:
  "apply_series f xs = Inr ys \<Longrightarrow> list_all2 (\<lambda>x y. f x = Inr y) xs ys"
  by (induction xs arbitrary: ys) (auto simp: bind_py_Inr)

lemma apply_series_total:
  "\<forall>x\<in>set xs. \<exists>y. f x = Inr y \<Longrightarrow> \<exists>ys. apply_series f xs = Inr ys"
  by (induction xs) (auto simp: bind_py_Inr)

lemma cell_update: "cell (AList.update k v row) c = (if c = k then v else cell row c)"
  by (simp add: cell_def update_conv')

lemma column_DataFrame:
  "column (DataFrame launches) c = Inr col \<Longrightarrow> col = map (\<lambda>row. cell row c) launches"
  by (auto simp: column_def DataFrame_def split: if_splits)

lemma procesar_datos_cells:
  assumes ret: "procesar_datos P pd launches = Inr out" and row: "row \<in> set out"
  shows "extraer_orbit pd (cell row ''payloads'') = Inr (cell row ''orbit_type'')"
    and "extraer_mass pd (cell row ''payloads'') = Inr (cell row ''payload_mass'')"
proof -
  let ?upd = "\<lambda>(row, orbit, mass, d, success).
                      AList.update ''success'' (PBool success)
                        (AList.update ''launch_year'' (dt_year d)
                          (AList.update ''payload_mass'' mass
                            (AList.update ''orbit_type'' orbit row)))"
  from ret obtain pcol orbits masses dcol dates scol where
    pcol: "column (DataFrame launches) ''payloads'' = Inr pcol" and
    orbits: "apply_series (extraer_orbit pd) pcol = Inr orbits" and
    masses: "apply_series (extraer_mass pd) pcol = Inr masses" and
    dcol: "column (DataFrame launches) ''date_utc'' = Inr dcol" and
    dates: "apply_series P dcol = Inr dates" and
    scol: "column (DataFrame launches) ''success'' = Inr scol" and
    out: "out = filter (\<lambda>row. cell row ''orbit_type'' \<noteq> PStr ''Unknown'')
              (map ?upd (zip launches (zip orbits (zip masses (zip dates (astype_bool scol))))))"
    by (auto simp: procesar_datos_def Let_def bind_py_Inr DataFrame_def)
  have pcol': "pcol = map (\<lambda>row. cell row ''payloads'') launches"
    using pcol by (rule column_DataFrame)
  have ro: "list_all2 (\<lambda>x y. extraer_orbit pd x = Inr y) pcol orbits"
    using orbits by (rule apply_series_Inr)
  have rm: "list_all2 (\<lambda>x y. extraer_mass pd x = Inr y) pcol masses"
    using masses by (rule apply_series_Inr)
  let ?zs = "zip launches (zip orbits (zip masses (zip dates (astype_bool scol))))"
  from row out obtain z where z: "z \<in> set ?zs" "row = ?upd z"
    by auto
  then obtain i where i: "i < length ?zs" "z = ?zs ! i"
    by (auto simp: in_set_conv_nth)
  then have il: "i < length launches" "i < length orbits" "i < length masses"
    by simp_all
  obtain d s where zi: "z = (launches ! i, orbits ! i, masses ! i, d, s)"
    using i by (cases z) auto
  have c1: "cell row ''payloads'' = cell (launches ! i) ''payloads''"
    using z(2) zi by (simp add: cell_update)
  have c2: "cell row ''orbit_type'' = orbits ! i"
    using z(2) zi by (simp add: cell_update)
  have c3: "cell row ''payload_mass'' = masses ! i"
    using z(2) zi by (simp add: cell_update)
  have "extraer_orbit pd (pcol ! i) = Inr (orbits ! i)"
    using ro il pcol' by (auto dest: list_all2_nthD)
  then show "extraer_orbit pd (cell row ''payloads'') = Inr (cell row ''orbit_type'')"
    using c1 c2 pcol' il by simp
  have "extraer_mass pd (pcol ! i) = Inr (masses ! i)"
    using rm il pcol' by (auto dest: list_all2_nthD)
  then show "extraer_mass pd (cell row ''payloads'') = Inr (cell row ''payload_mass'')"
    using c1 c3 pcol' il by simp
qed

lemma procesar_datos_example:
  "procesar_datos no_dates payloads_example [launch_two_payloads] =
     Inr [[(''flight_number'', PNum 6), (''name'', PStr ''CASSIOPE''),
           (''date_utc'', PStr ''2013-09-29T16:00:00.000Z''),
           (''success'', PBool True),
           (''rocket'', PStr ''r9''),
           (''payloads'', PList [PStr ''p1'', PStr ''p2'']),
           (''orbit_type'', PStr ''LEO''),
           (''payload_mass'', PNum 500),
           (''launch_year'', PNaN)]]"
  by (simp add: procesar_datos_def Let_def DataFrame_def column_def cell_def
      launch_two_payloads_def payloads_example_def no_dates_def dt_year_def
      extraer_orbit_def extraer_mass_def has_items_def astype_bool_def py_get_def)


section \<open>Landing outcomes\<close>

text \<open>
  C3: the outcome label is a function of the pair (landing success, landing type) into
  eight labels. It depends on the success value only through its truth value. With the
  landing type RTLS, ASDS or Ocean the label is the ground pad, drone ship or ocean
  variant of Success or Failure according to the success flag, and any other landing
  type gives the "other" variant of the same side. The test of failed\_landings\_2015.py,
  not successful and ASDS, selects exactly the cores labelled Failure (drone ship).
\<close>

theorem outcome_label_eight_labels:
  "outcome_label s t \<in> set [''Success (ground pad)'', ''Success (drone ship)'',
       ''Success (ocean)'', ''Success (other)'', ''Failure (ground pad)'',
       ''Failure (drone ship)'', ''Failure (ocean)'', ''Failure (other)'']
   \<and> outcome_label s t = outcome_label (PBool (truthy s)) t
   \<and> outcome_label (PBool True) (PStr ''RTLS'') = ''Success (ground pad)''
   \<and> outcome_label (PBool True) (PStr ''ASDS'') = ''Success (drone ship)''
   \<and> outcome_label (PBool True) (PStr ''Ocean'') = ''Success (ocean)''
   \<and> outcome_label (PBool False) (PStr ''RTLS'') = ''Failure (ground pad)''
   \<and> outcome_label (PBool False) (PStr ''ASDS'') = ''Failure (drone ship)''
   \<and> outcome_label (PBool False) (PStr ''Ocean'') = ''Failure (ocean)''
   \<and> (t \<notin> {PStr ''RTLS'', PStr ''ASDS'', PStr ''Ocean''} \<longrightarrow>
        outcome_label (PBool b) t = (if b then ''Success (other)'' else ''Failure (other)''))
   \<and> ((\<not> truthy s \<and> t = PStr ''ASDS'') = (outcome_label s t = ''Failure (drone ship)''))"
  by (simp add: outcome_label_def)

theorem outcome_label_eight_labels_witness:
  "PStr ''parachute'' \<notin> {PStr ''RTLS'', PStr ''ASDS'', PStr ''Ocean''}
   \<and> outcome_label (PBool True) (PStr ''parachute'') = ''Success (other)''
   \<and> outcome_label (PBool False) PNone = ''Failure (other)''
   \<and> outcome_label PNone (PStr ''ASDS'') = ''Failure (drone ship)''"
  using outcome_label_eight_labels [of PNone "PStr ''parachute''" True]
        outcome_label_eight_labels [of PNone PNone False]
        outcome_label_eight_labels [of PNone "PStr ''ASDS''" False]
  by simp


section \<open>The date range\<close>




section \<open>The orbit of a launch\<close>

text \<open>
  C6: the orbit type of a launch comes from the first payload reference only. With an
  empty payload list it is "Unknown"; with a list whose first id resolves it is the
  orbit entry of that payload ("Unknown" when the payload has none), and "Unknown" when
  the first id is in no row of the table; the references after the first never change
  the result. In every row that procesar\_datos returns, the orbit type is what
  extraer\_orbit gives for the payloads of that row.
\<close>

theorem extraer_orbit_first_payload:
  "extraer_orbit payloads_data (PList []) = Inr (PStr ''Unknown'')
   \<and> extraer_orbit payloads_data (PList (PStr k # rest)) =
       Inr (case payloads_data k of
              Some payload \<Rightarrow> py_get payload ''orbit'' (PStr ''Unknown'')
            | None \<Rightarrow> PStr ''Unknown'')
   \<and> extraer_orbit payloads_data (PList (x # rest)) = extraer_orbit payloads_data (PList [x])
   \<and> (procesar_datos to_datetime payloads_data launches = Inr out \<and> row \<in> set out \<longrightarrow>
        extraer_orbit payloads_data (cell row ''payloads'') = Inr (cell row ''orbit_type''))"
proof -
  have "extraer_orbit payloads_data (PList []) = Inr (PStr ''Unknown'')
   \<and> extraer_orbit payloads_data (PList (PStr k # rest)) =
       Inr (case payloads_data k of
              Some payload \<Rightarrow> py_get payload ''orbit'' (PStr ''Unknown'')
            | None \<Rightarrow> PStr ''Unknown'')
   \<and> extraer_orbit payloads_data (PList (x # rest)) = extraer_orbit payloads_data (PList [x])"
    by (simp add: extraer_orbit_def has_items_def split: option.splits)
  moreover have "procesar_datos to_datetime payloads_data launches = Inr out \<and> row \<in> set out \<longrightarrow>
        extraer_orbit payloads_data (cell row ''payloads'') = Inr (cell row ''orbit_type'')"
    using procesar_datos_cells(1) by blast
  ultimately show ?thesis
    by blast
qed

theorem extraer_orbit_first_payload_witness:
  "extraer_orbit payloads_example (PList [PStr ''p1'', PStr ''p2'']) = Inr (PStr ''LEO'')
   \<and> extraer_orbit payloads_example (PList [PStr ''p9'', PStr ''p2'']) = Inr (PStr ''Unknown'')
   \<and> procesar_datos no_dates payloads_example [launch_two_payloads] =
       Inr [[(''flight_number'', PNum 6), (''name'', PStr ''CASSIOPE''),
             (''date_utc'', PStr ''2013-09-29T16:00:00.000Z''),
             (''success'', PBool True),
             (''rocket'', PStr ''r9''),
             (''payloads'', PList [PStr ''p1'', PStr ''p2'']),
             (''orbit_type'', PStr ''LEO''),
             (''payload_mass'', PNum 500),
             (''launch_year'', PNaN)]]"
proof -
  let ?row = "[(''flight_number'', PNum 6), (''name'', PStr ''CASSIOPE''),
             (''date_utc'', PStr ''2013-09-29T16:00:00.000Z''),
             (''success'', PBool True),
             (''rocket'', PStr ''r9''),
             (''payloads'', PList [PStr ''p1'', PStr ''p2'']),
             (''orbit_type'', PStr ''LEO''),
             (''payload_mass'', PNum 500),
             (''launch_year'', PNaN)]"
  note t = extraer_orbit_first_payload [of payloads_example "''p9''" "[PStr ''p2'']" "PStr ''p9''"
      no_dates "[launch_two_payloads]" "[?row]" ?row]
  have in_out: "?row \<in> set [?row]"
    by simp
  from t [THEN conjunct2, THEN conjunct2, THEN conjunct2, THEN mp,
      OF conjI [OF procesar_datos_example in_out]]
  have a: "extraer_orbit payloads_example (PList [PStr ''p1'', PStr ''p2'']) = Inr (PStr ''LEO'')"
    by (simp add: cell_def)
  from t [THEN conjunct2, THEN conjunct1]
  have b: "extraer_orbit payloads_example (PList [PStr ''p9'', PStr ''p2'']) = Inr (PStr ''Unknown'')"
    by (simp add: payloads_example_def)
  show ?thesis
    by (rule conjI [OF a conjI [OF b procesar_datos_example]])
qed


section \<open>Null fields in process\_api\_data\<close>

text \<open>
  C5: process\_api\_data on a feed of one Falcon 9 launch. With no \<^verbatim>\<open>payloads\<close> key the
  default applies and the launch is processed without error (it has no mass, so the
  function returns \<^verbatim>\<open>None\<close>); with \<^verbatim>\<open>"payloads": null\<close> the default does not apply, the
  loop iterates over \<^verbatim>\<open>None\<close> and the function raises TypeError, as it does on a feed
  that is a number and no collection. A feed that is \<^verbatim>\<open>None\<close> makes it return
  \<^verbatim>\<open>None\<close>.
\<close>

theorem process_api_data_null_payloads_raises:
  "process_api_data repr (PList [launch_no_payloads]) = Inr None
   \<and> process_api_data repr (PList [launch_null_payloads]) = Inl TypeError
   \<and> process_api_data repr (PNum 5) = Inl TypeError
   \<and> process_api_data repr PNone = Inr None"
  by (simp add: process_api_data_def process_launch_def launch_no_payloads_def
      launch_null_payloads_def py_get_def name_of_ref_def)

text \<open>
  C8: process\_api\_data on a feed of one Falcon 9 launch with a payload of 500 kg. With no
  \<^verbatim>\<open>success\<close> key the \<^verbatim>\<open>Success\<close> cell of its row is \<^verbatim>\<open>False\<close>; with
  \<^verbatim>\<open>"success": null\<close> the cell is \<^verbatim>\<open>None\<close>, which is not a boolean.
\<close>

theorem process_api_data_null_success:
  "process_api_data repr (PList [launch_no_success]) =
     Inr (Some [[(''FlightNumber'', PNum 7), (''LaunchSite'', PStr ''Unknown''),
                 (''PayloadMass'', PNum 500), (''Success'', PBool False),
                 (''Date'', PStr ''''), (''Rocket'', PStr ''Falcon 9'')]])
   \<and> process_api_data repr (PList [launch_null_success]) =
     Inr (Some [[(''FlightNumber'', PNum 7), (''LaunchSite'', PStr ''Unknown''),
                 (''PayloadMass'', PNum 500), (''Success'', PNone),
                 (''Date'', PStr ''''), (''Rocket'', PStr ''Falcon 9'')]])"
  by (simp add: process_api_data_def process_launch_def launch_no_success_def
      launch_null_success_def py_get_def name_of_ref_def py_gt0_def)


section \<open>The sample data\<close>

lemma sample_launch_row:
  "sample_launch R fl i g = (row, g') \<Longrightarrow>
     (\<exists>m. cell row ''PayloadMass'' = PNum (of_int m) \<and> 1000 \<le> m)
     \<and> cell row ''Rocket'' = PStr ''Falcon 9''"
  by (auto simp: sample_launch_def Let_def cell_def split: prod.splits)

lemma sample_loop_length:
  "length (fst (sample_loop R fl idx (data, g))) = length data + length idx"
  by (induction idx arbitrary: data g) (auto split: prod.splits)

lemma sample_loop_rows:
  assumes step: "\<And>i g row g'. sample_launch R fl i g = (row, g') \<Longrightarrow> P row"
  shows "\<forall>row\<in>set data. P row \<Longrightarrow> \<forall>row\<in>set (fst (sample_loop R fl idx (data, g))). P row"
proof (induction idx arbitrary: data g)
  case Nil
  then show ?case by simp
next
  case (Cons i idx)
  obtain row g' where s: "sample_launch R fl i g = (row, g')"
    by fastforce
  have "\<forall>r\<in>set (data @ [row]). P r"
    using Cons.prems step [OF s] by auto
  from Cons.IH [OF this] show ?case
    using s by simp
qed

text \<open>
  C9: the sample data generators are deterministic. Each sets the generator's state from
  the seed 42 before its first draw, so the dataset it returns, and the state it leaves,
  are the same whatever state the generator was in when the function was called: two
  runs give identical datasets, field for field. This holds for create\_realistic\_sample\_data
  and for create\_spacex\_sample\_data, for any generator and any float rounding.
\<close>

theorem sample_data_deterministic:
  "create_realistic_sample_data R fl g1 = create_realistic_sample_data R fl g2
   \<and> create_spacex_sample_data R plus_days g1 = create_spacex_sample_data R plus_days g2"
  by (simp add: create_realistic_sample_data_def create_spacex_sample_data_def)

theorem sample_data_deterministic_witness:
  "fst (create_realistic_sample_data example_random id 0)
     = fst (create_realistic_sample_data example_random id 2024)
   \<and> fst (create_spacex_sample_data example_random (\<lambda>t k. t) 0)
     = fst (create_spacex_sample_data example_random (\<lambda>t k. t) 2024)"
  using sample_data_deterministic [of example_random id 0 2024 "\<lambda>t k. t"]
  by simp

text \<open>
  C10: the dataset of create\_realistic\_sample\_data has exactly 120 rows; in every row the
  payload mass is an integer of at least 1000 and the rocket is "Falcon 9", so no row
  has the mass 0 or the rocket "Unknown". This holds for any generator: the mass is the
  greater of 1000 and the truncated draw.
\<close>

theorem sample_data_120_rows_mass_rocket:
  "length (fst (create_realistic_sample_data R fl g)) = 120
   \<and> (\<forall>row\<in>set (fst (create_realistic_sample_data R fl g)).
         (\<exists>m. cell row ''PayloadMass'' = PNum (of_int m) \<and> 1000 \<le> m)
         \<and> cell row ''Rocket'' = PStr ''Falcon 9''
         \<and> cell row ''PayloadMass'' \<noteq> PNum 0
         \<and> cell row ''Rocket'' \<noteq> PStr ''Unknown'')"
proof -
  have "length (fst (sample_loop R fl [0..<120] ([], rnd_seed R 42))) = 120"
    by (simp add: sample_loop_length)
  moreover have "\<forall>row\<in>set (fst (sample_loop R fl [0..<120] ([], rnd_seed R 42))).
         (\<exists>m. cell row ''PayloadMass'' = PNum (of_int m) \<and> 1000 \<le> m)
         \<and> cell row ''Rocket'' = PStr ''Falcon 9''"
    by (rule sample_loop_rows) (erule sample_launch_row, simp)
  ultimately show ?thesis
    by (auto simp: create_realistic_sample_data_def)
qed

theorem sample_data_120_rows_mass_rocket_witness:
  "length (fst (create_realistic_sample_data example_random id 0)) = 120
   \<and> cell (hd (fst (create_realistic_sample_data example_random id 0))) ''Rocket''
       = PStr ''Falcon 9''
   \<and> (\<exists>m. cell (hd (fst (create_realistic_sample_data example_random id 0))) ''PayloadMass''
          = PNum (of_int m) \<and> 1000 \<le> m)"
proof -
  let ?df = "fst (create_realistic_sample_data example_random id 0)"
  note t = sample_data_120_rows_mass_rocket [of example_random id 0]
  from t have "?df \<noteq> []" by auto
  then have "hd ?df \<in> set ?df" by simp
  with t show ?thesis by blast
qed


section \<open>References that do not resolve\<close>

lemma extraer_launchpad_info_absent:
  "lookup t v = Inr None \<Longrightarrow> extraer_launchpad_info t v = Inr None"
  by (simp add: extraer_launchpad_info_def)

lemma launch_site_columns_row:
  assumes "launch_site_columns t launches = Inr out"
  shows "length out = length launches"
    and "i < length launches \<Longrightarrow> lookup t (cell (launches ! i) ''launchpad'') = Inr None \<Longrightarrow>
      cell (out ! i) ''launchpad_info'' = PNone \<and>
      cell (out ! i) ''launch_site_name'' = PStr ''Unknown'' \<and>
      cell (out ! i) ''launch_site_full_name'' = PStr ''Unknown'' \<and>
      cell (out ! i) ''launch_site_locality'' = PStr ''Unknown'' \<and>
      cell (out ! i) ''launch_site_region'' = PStr ''Unknown''"
proof -
  from assms obtain col infos where
    col: "column (DataFrame launches) ''launchpad'' = Inr col" and
    infos: "apply_series (extraer_launchpad_info t) col = Inr infos" and
    out: "out = map (\<lambda>(row, x).
                    AList.update ''launch_site_region'' (info_field x ''region'')
                      (AList.update ''launch_site_locality'' (info_field x ''locality'')
                        (AList.update ''launch_site_full_name'' (info_field x ''full_name'')
                          (AList.update ''launch_site_name'' (info_field x ''name'')
                            (AList.update ''launchpad_info'' (info_cell x) row)))))
                 (zip launches infos)"
    by (auto simp: launch_site_columns_def Let_def bind_py_Inr DataFrame_def)
  have col': "col = map (\<lambda>row. cell row ''launchpad'') launches"
    using col by (rule column_DataFrame)
  have rel: "list_all2 (\<lambda>x y. extraer_launchpad_info t x = Inr y) col infos"
    using infos by (rule apply_series_Inr)
  then have len: "length infos = length launches"
    using col' by (auto dest: list_all2_lengthD)
  show "length out = length launches"
    using out len by simp
  assume i: "i < length launches"
    and absent: "lookup t (cell (launches ! i) ''launchpad'') = Inr None"
  have "extraer_launchpad_info t (col ! i) = Inr (infos ! i)"
    using rel i col' by (auto dest: list_all2_nthD)
  then have "infos ! i = None"
    using absent i col' by (simp add: extraer_launchpad_info_absent)
  then show "cell (out ! i) ''launchpad_info'' = PNone \<and>
      cell (out ! i) ''launch_site_name'' = PStr ''Unknown'' \<and>
      cell (out ! i) ''launch_site_full_name'' = PStr ''Unknown'' \<and>
      cell (out ! i) ''launch_site_locality'' = PStr ''Unknown'' \<and>
      cell (out ! i) ''launch_site_region'' = PStr ''Unknown''"
    using out i len by (simp add: cell_update info_field_def info_cell_def)
qed

lemma launch_site_columns_total:
  assumes "''launchpad'' \<in> set (columns (DataFrame launches))"
    and "\<forall>l\<in>set launches. \<exists>r. lookup t (cell l ''launchpad'') = Inr r"
  shows "\<exists>out. launch_site_columns t launches = Inr out"
proof -
  have "\<forall>x\<in>set (map (\<lambda>row. cell row ''launchpad'') launches).
          \<exists>y. extraer_launchpad_info t x = Inr y"
    using assms(2) by (auto simp: extraer_launchpad_info_def)
  from apply_series_total [OF this] obtain infos where
    "apply_series (extraer_launchpad_info t)
       (map (\<lambda>row. cell row ''launchpad'') launches) = Inr infos" ..
  then show ?thesis
    using assms(1) by (simp add: launch_site_columns_def Let_def column_def DataFrame_def)
qed

lemma failed_cores_loop_fields:
  "failed_cores_loop df row ri li cores failed = Inr out \<Longrightarrow>
    length out = length failed + length (filter is_failed_asds cores) \<and>
    (\<exists>new. out = failed @ new \<and>
       (\<forall>r\<in>set new. cell r ''rocket_name'' = info_field ri ''name''
         \<and> cell r ''rocket_type'' = info_field ri ''type''
         \<and> cell r ''launch_site_name'' = info_field li ''name''
         \<and> cell r ''launch_site_full_name'' = info_field li ''full_name''
         \<and> cell r ''launch_site_locality'' = info_field li ''locality''
         \<and> cell r ''launch_site_region'' = info_field li ''region''))"
proof (induction cores arbitrary: failed)
  case Nil
  then show ?case by simp
next
  case (Cons core cores)
  show ?case
  proof (cases "is_failed_asds core")
    case True
    then obtain c where c: "core = PDict c"
      by (auto simp: is_failed_asds_def split: pyval.splits)
    from Cons.prems True c obtain fn nm du dl where
      rec: "failed_cores_loop df row ri li cores (failed @
                      [[(''flight_number'', fn),
                        (''name'', nm),
                        (''date_utc'', du),
                        (''date_local'', dl),
                        (''rocket_name'', info_field ri ''name''),
                        (''rocket_type'', info_field ri ''type''),
                        (''launch_site_name'', info_field li ''name''),
                        (''launch_site_full_name'', info_field li ''full_name''),
                        (''launch_site_locality'', info_field li ''locality''),
                        (''launch_site_region'', info_field li ''region''),
                        (''landing_type'', py_get c ''landing_type'' (PStr '''')),
                        (''landing_success'', py_get c ''landing_success'' (PBool False)),
                        (''landpad'', py_get c ''landpad'' (PStr ''Unknown'')),
                        (''reused'', py_get c ''reused'' (PBool False)),
                        (''core_id'', py_get c ''core'' (PStr ''Unknown''))]]) = Inr out"
      by (auto simp: is_failed_asds_def Let_def bind_py_Inr)
    from Cons.IH [OF rec] True show ?thesis
      by (auto simp: cell_def)
  next
    case False
    with Cons.prems have "failed_cores_loop df row ri li cores failed = Inr out"
      by (auto simp: is_failed_asds_def Let_def split: pyval.splits if_splits)
    from Cons.IH [OF this] False show ?thesis
      by auto
  qed
qed

text \<open>
  C4: a reference id that is in no row of its table never makes resolution raise, and
  every name resolved from it is the text "Unknown". For an id \<open>v\<close> whose lookup finds
  nothing, the rocket and the launchpad resolve to \<^verbatim>\<open>None\<close>, the payload is skipped and
  the orbit is "Unknown"; every field read from an entry that is \<^verbatim>\<open>None\<close> is "Unknown".
  The record is still produced: launch\_sites\_pattern.py gives every launch its row (it
  raises only on an id that is a list or a dictionary, or when no launch has a launchpad
  key), and the row of a launch whose launchpad does not resolve has "Unknown" in its
  four site names; failed\_landings\_2015.py appends one record for every failed drone ship
  landing of a row, with "Unknown" in the rocket fields when the rocket did not resolve
  and in the site fields when the launchpad did not.
\<close>

theorem unresolved_reference_unknown:
  "(lookup t v = Inr None \<longrightarrow>
      extraer_rocket_info t v = Inr None
      \<and> extraer_launchpad_info t v = Inr None
      \<and> extraer_payload_info t (PList [v]) = Inr []
      \<and> extraer_orbit t (PList (v # rest)) = Inr (PStr ''Unknown''))
   \<and> info_field None k = PStr ''Unknown''
   \<and> (''launchpad'' \<in> set (columns (DataFrame launches))
        \<and> (\<forall>l\<in>set launches. \<exists>r. lookup t (cell l ''launchpad'') = Inr r)
      \<longrightarrow> (\<exists>rows'. launch_site_columns t launches = Inr rows'))
   \<and> (launch_site_columns t launches = Inr out \<longrightarrow> length out = length launches)
   \<and> (launch_site_columns t launches = Inr out \<and> i < length launches
        \<and> lookup t (cell (launches ! i) ''launchpad'') = Inr None
      \<longrightarrow> cell (out ! i) ''launchpad_info'' = PNone
          \<and> cell (out ! i) ''launch_site_name'' = PStr ''Unknown''
          \<and> cell (out ! i) ''launch_site_full_name'' = PStr ''Unknown''
          \<and> cell (out ! i) ''launch_site_locality'' = PStr ''Unknown''
          \<and> cell (out ! i) ''launch_site_region'' = PStr ''Unknown'')
   \<and> (failed_cores_loop df row ri li cores [] = Inr recs
      \<longrightarrow> length recs = length (filter is_failed_asds cores)
          \<and> (\<forall>r\<in>set recs.
                (ri = None \<longrightarrow> cell r ''rocket_name'' = PStr ''Unknown''
                              \<and> cell r ''rocket_type'' = PStr ''Unknown'')
              \<and> (li = None \<longrightarrow> cell r ''launch_site_name'' = PStr ''Unknown''
                              \<and> cell r ''launch_site_full_name'' = PStr ''Unknown''
                              \<and> cell r ''launch_site_locality'' = PStr ''Unknown''
                              \<and> cell r ''launch_site_region'' = PStr ''Unknown'')))"
proof -
  have res: "lookup t v = Inr None \<longrightarrow>
      extraer_rocket_info t v = Inr None
      \<and> extraer_launchpad_info t v = Inr None
      \<and> extraer_payload_info t (PList [v]) = Inr []
      \<and> extraer_orbit t (PList (v # rest)) = Inr (PStr ''Unknown'')"
    by (simp add: extraer_rocket_info_def extraer_launchpad_info_def extraer_payload_info_def
        extraer_orbit_def has_items_def)
  have unk: "info_field None k = PStr ''Unknown''"
    by (simp add: info_field_def)
  have tot: "''launchpad'' \<in> set (columns (DataFrame launches))
        \<and> (\<forall>l\<in>set launches. \<exists>r. lookup t (cell l ''launchpad'') = Inr r)
      \<longrightarrow> (\<exists>rows'. launch_site_columns t launches = Inr rows')"
    using launch_site_columns_total [of launches t] by blast
  have len: "launch_site_columns t launches = Inr out \<longrightarrow> length out = length launches"
    using launch_site_columns_row(1) by blast
  have row: "launch_site_columns t launches = Inr out \<and> i < length launches
        \<and> lookup t (cell (launches ! i) ''launchpad'') = Inr None
      \<longrightarrow> cell (out ! i) ''launchpad_info'' = PNone
          \<and> cell (out ! i) ''launch_site_name'' = PStr ''Unknown''
          \<and> cell (out ! i) ''launch_site_full_name'' = PStr ''Unknown''
          \<and> cell (out ! i) ''launch_site_locality'' = PStr ''Unknown''
          \<and> cell (out ! i) ''launch_site_region'' = PStr ''Unknown''"
    using launch_site_columns_row(2) [of t launches out i] by blast
  have failed: "failed_cores_loop df row ri li cores [] = Inr recs
      \<longrightarrow> length recs = length (filter is_failed_asds cores)
          \<and> (\<forall>r\<in>set recs.
                (ri = None \<longrightarrow> cell r ''rocket_name'' = PStr ''Unknown''
                              \<and> cell r ''rocket_type'' = PStr ''Unknown'')
              \<and> (li = None \<longrightarrow> cell r ''launch_site_name'' = PStr ''Unknown''
                              \<and> cell r ''launch_site_full_name'' = PStr ''Unknown''
                              \<and> cell r ''launch_site_locality'' = PStr ''Unknown''
                              \<and> cell r ''launch_site_region'' = PStr ''Unknown''))"
    using failed_cores_loop_fields [of df row ri li cores "[]" recs]
    by (auto simp: info_field_def)
  from res unk tot len row failed show ?thesis
    by blast
qed

theorem unresolved_reference_unknown_witness:
  "lookup launchpads_example (PStr ''pad9'') = Inr None
   \<and> extraer_launchpad_info launchpads_example (PStr ''pad9'') = Inr None
   \<and> ''launchpad'' \<in> set (columns (DataFrame [launch_unknown_refs]))
   \<and> cell (launch_unknown_refs) ''launchpad'' = PStr ''pad9''
   \<and> launch_site_columns launchpads_example [launch_unknown_refs] =
       Inr [launch_unknown_refs @
            [(''launchpad_info'', PNone),
             (''launch_site_name'', PStr ''Unknown''),
             (''launch_site_full_name'', PStr ''Unknown''),
             (''launch_site_locality'', PStr ''Unknown''),
             (''launch_site_region'', PStr ''Unknown'')]]
   \<and> failed_cores_loop (DataFrame [launch_unknown_refs]) launch_unknown_refs None None
         [core_failed_asds] [] =
       Inr [[(''flight_number'', PNum 20),
             (''name'', PStr ''CRS-7''),
             (''date_utc'', PStr ''2015-06-28T14:21:00.000Z''),
             (''date_local'', PStr ''2015-06-28T10:21:00-04:00''),
             (''rocket_name'', PStr ''Unknown''),
             (''rocket_type'', PStr ''Unknown''),
             (''launch_site_name'', PStr ''Unknown''),
             (''launch_site_full_name'', PStr ''Unknown''),
             (''launch_site_locality'', PStr ''Unknown''),
             (''launch_site_region'', PStr ''Unknown''),
             (''landing_type'', PStr ''ASDS''),
             (''landing_success'', PNone),
             (''landpad'', PStr ''Unknown''),
             (''reused'', PBool False),
             (''core_id'', PStr ''c1'')]]"
proof -
  have a: "lookup launchpads_example (PStr ''pad9'') = Inr None"
    by (simp add: launchpads_example_def)
  have b: "''launchpad'' \<in> set (columns (DataFrame [launch_unknown_refs]))"
    by (simp add: DataFrame_def launch_unknown_refs_def)
  have c: "cell (launch_unknown_refs) ''launchpad'' = PStr ''pad9''"
    by (simp add: cell_def launch_unknown_refs_def)
  have d: "launch_site_columns launchpads_example [launch_unknown_refs] =
       Inr [launch_unknown_refs @
            [(''launchpad_info'', PNone),
             (''launch_site_name'', PStr ''Unknown''),
             (''launch_site_full_name'', PStr ''Unknown''),
             (''launch_site_locality'', PStr ''Unknown''),
             (''launch_site_region'', PStr ''Unknown'')]]"
    by (simp add: launch_site_columns_def Let_def DataFrame_def column_def cell_def
        launch_unknown_refs_def launchpads_example_def extraer_launchpad_info_def
        info_field_def info_cell_def)
  have e: "failed_cores_loop (DataFrame [launch_unknown_refs]) launch_unknown_refs None None
         [core_failed_asds] [] =
       Inr [[(''flight_number'', PNum 20),
             (''name'', PStr ''CRS-7''),
             (''date_utc'', PStr ''2015-06-28T14:21:00.000Z''),
             (''date_local'', PStr ''2015-06-28T10:21:00-04:00''),
             (''rocket_name'', PStr ''Unknown''),
             (''rocket_type'', PStr ''Unknown''),
             (''launch_site_name'', PStr ''Unknown''),
             (''launch_site_full_name'', PStr ''Unknown''),
             (''launch_site_locality'', PStr ''Unknown''),
             (''launch_site_region'', PStr ''Unknown''),
             (''landing_type'', PStr ''ASDS''),
             (''landing_success'', PNone),
             (''landpad'', PStr ''Unknown''),
             (''reused'', PBool False),
             (''core_id'', PStr ''c1'')]]"
    by (simp add: Let_def DataFrame_def row_item_def cell_def launch_unknown_refs_def
        core_failed_asds_def py_get_def info_field_def)
  from a b c d e
    unresolved_reference_unknown [of launchpads_example "PStr ''pad9''" "[]" "''name''"
      "[launch_unknown_refs]" _ 0 "DataFrame [launch_unknown_refs]" launch_unknown_refs
      None None "[core_failed_asds]"]
  show ?thesis by simp
qed


section \<open>The total payload mass\<close>









section \<open>Which launches give a row, and in which order\<close>











end
